theory Spec2Isabelle
  imports Main "HOL-Library.Sublist"
begin

section \<open>Strings and numbers of the host language\<close>

text \<open>
  Strings are character lists. The model covers ASCII text: the white space that
  \<^verbatim>\<open>String.prototype.trim\<close> strips is TAB, LF, VT, FF, CR and SPACE, and
  \<^verbatim>\<open>toLowerCase\<close> maps \<^verbatim>\<open>A\<close>..\<^verbatim>\<open>Z\<close> to \<^verbatim>\<open>a\<close>..\<^verbatim>\<open>z\<close> and keeps every other character.
\<close>

definition is_space :: "char \<Rightarrow> bool" where
  "is_space c = (c \<in> set [CHR 0x09, CHR 0x0A, CHR 0x0B, CHR 0x0C, CHR 0x0D, CHR '' ''])"

definition trim :: "string \<Rightarrow> string" where
  "trim s = rev (dropWhile is_space (rev (dropWhile is_space s)))"




text \<open>\<^verbatim>\<open>s || null\<close> on a string: the empty string is falsy.\<close>

definition or_null :: "string \<Rightarrow> string option" where
  "or_null s = (if s = [] then None else Some s)"

text \<open>\<^verbatim>\<open>x || ''\<close> on a string that may be null or absent.\<close>

definition or_empty :: "string option \<Rightarrow> string" where
  "or_empty x = (case x of None \<Rightarrow> [] | Some s \<Rightarrow> s)"

text \<open>Decimal rendering of a number inside a template literal.\<close>

fun show_nat :: "nat \<Rightarrow> string" where
  "show_nat n =
     (if n < 10 then [''0123456789'' ! n]
      else show_nat (n div 10) @ [''0123456789'' ! (n mod 10)])"

definition show_int :: "int \<Rightarrow> string" where
  "show_int i = (if i < 0 then CHR ''-'' # show_nat (nat (- i)) else show_nat (nat i))"

text \<open>
  A number is an integer or NaN. \<^verbatim>\<open>parseInt(s)\<close> without a radix skips leading white
  space, reads an optional sign and an optional \<^verbatim>\<open>0x\<close> prefix, and then the longest run
  of digits of the radix; with no digit the result is NaN. (Integers are exact here;
  the host's doubles are exact up to \<open>2^53\<close>.)
\<close>

datatype number = Num int | NaN

definition digit_value :: "char \<Rightarrow> nat option" where
  "digit_value c =
     map_of (zip ''0123456789abcdefABCDEF''
                 [0, 1, 2, 3, 4, 5, 6, 7, 8, 9, 10, 11, 12, 13, 14, 15, 10, 11, 12, 13, 14, 15]) c"

definition is_digit :: "nat \<Rightarrow> char \<Rightarrow> bool" where
  "is_digit radix c = (case digit_value c of None \<Rightarrow> False | Some d \<Rightarrow> d < radix)"

definition parse_digits :: "nat \<Rightarrow> string \<Rightarrow> number" where
  "parse_digits radix s =
     (let ds = List.map_filter digit_value (takeWhile (is_digit radix) s)
      in if ds = [] then NaN else Num (int (foldl (\<lambda>a d. a * radix + d) 0 ds)))"

definition negate :: "number \<Rightarrow> number" where
  "negate x = (case x of NaN \<Rightarrow> NaN | Num i \<Rightarrow> Num (- i))"

definition parse_unsigned :: "string \<Rightarrow> number" where
  "parse_unsigned s =
     (if prefix ''0x'' s \<or> prefix ''0X'' s then parse_digits 16 (drop 2 s)
      else parse_digits 10 s)"

definition parseInt :: "string \<Rightarrow> number" where
  "parseInt s =
     (case dropWhile is_space s of
        [] \<Rightarrow> NaN
      | c # r \<Rightarrow>
          if c = CHR ''-'' then negate (parse_unsigned r)
          else if c = CHR ''+'' then parse_unsigned r
          else parse_unsigned (c # r))"


section \<open>Data model\<close>

text \<open>
  The Media and Rating records as the components build and read them. A field that
  the code writes as \<^verbatim>\<open>null\<close>, or leaves out of an object, is \<open>None\<close>.
\<close>

record media_rec =
  media_id :: string
  media_title :: string
  media_type :: string
  media_genre :: string
  media_releaseYear :: number
  media_description :: "string option"
  media_coverImage :: "string option"
  media_country :: "string option"
  media_createdAt :: "string option"
  media_updatedAt :: "string option"

record rating_rec =
  rating_id :: string
  rating_userId :: string
  rating_mediaId :: string
  rating_value :: int
  rating_review :: "string option"
  rating_updatedAt :: "string option"

record user_rec =
  user_id :: string

datatype variant = Default | Destructive

record toast_rec =
  toast_title :: string
  toast_description :: string
  toast_variant :: variant

text \<open>Every component owns a list of the notifications it has raised, oldest first.\<close>

record ui =
  toasts :: "toast_rec list"

definition toast :: "toast_rec \<Rightarrow> 'a ui_scheme \<Rightarrow> 'a ui_scheme" where
  "toast t s = s\<lparr>toasts := toasts s @ [t]\<rparr>"

definition quoted :: "string \<Rightarrow> string" where
  "quoted s = CHR 0x22 # s @ [CHR 0x22]"


section \<open>The record store\<close>

text \<open>
  Modelled from the spec: the remote record store behind \<^verbatim>\<open>blink.db\<close>, an external
  service whose code is not part of the repository. Section 6 of the specification gives
  its operations: \<open>list\<close> with an optional \<open>where\<close> filter, \<open>create\<close>, \<open>update\<close> of the record
  with a given id by a partial record, and \<open>delete\<close> of the record with a given id. Section 7
  says that a call which fails leaves the stored records as they were. Every call the
  components issue is appended to \<open>calls\<close>, whether it succeeds or not; whether the call
  number \<open>n\<close> (counting from the start of the log) fails is decided by the environment.
\<close>

record rating_where =
  where_userId :: "string option"
  where_mediaId :: "string option"

record rating_update =
  set_rating :: int
  set_review :: "string option"
  set_updatedAt :: string

record media_update =
  set_title :: string
  set_type :: string
  set_genre :: string
  set_releaseYear :: int
  set_country :: string
  set_description :: "string option"
  set_coverImage :: "string option"
  set_media_updatedAt :: string

datatype db_call =
    RatingsList rating_where
  | RatingsCreate rating_rec
  | RatingsUpdate string rating_update
  | RatingsDelete string
  | MediaCreate media_rec
  | MediaUpdate string media_update
  | MediaDelete string

record store =
  media_rows :: "media_rec list"
  rating_rows :: "rating_rec list"
  calls :: "db_call list"

definition matches :: "rating_where \<Rightarrow> rating_rec \<Rightarrow> bool" where
  "matches q r =
     ((case where_userId q of None \<Rightarrow> True | Some u \<Rightarrow> rating_userId r = u) \<and>
      (case where_mediaId q of None \<Rightarrow> True | Some m \<Rightarrow> rating_mediaId r = m))"

definition apply_rating_update :: "rating_update \<Rightarrow> rating_rec \<Rightarrow> rating_rec" where
  "apply_rating_update p r =
     r\<lparr>rating_value := set_rating p,
       rating_review := set_review p,
       rating_updatedAt := Some (set_updatedAt p)\<rparr>"

definition apply_media_update :: "media_update \<Rightarrow> media_rec \<Rightarrow> media_rec" where
  "apply_media_update p m =
     m\<lparr>media_title := set_title p,
       media_type := set_type p,
       media_genre := set_genre p,
       media_releaseYear := Num (set_releaseYear p),
       media_country := Some (set_country p),
       media_description := set_description p,
       media_coverImage := set_coverImage p,
       media_updatedAt := Some (set_media_updatedAt p)\<rparr>"

fun effect :: "db_call \<Rightarrow> store \<Rightarrow> store" where
  "effect (RatingsList q) st = st"
| "effect (RatingsCreate r) st = st\<lparr>rating_rows := rating_rows st @ [r]\<rparr>"
| "effect (RatingsUpdate i p) st =
     st\<lparr>rating_rows :=
          map (\<lambda>r. if rating_id r = i then apply_rating_update p r else r) (rating_rows st)\<rparr>"
| "effect (RatingsDelete i) st =
     st\<lparr>rating_rows := filter (\<lambda>r. rating_id r \<noteq> i) (rating_rows st)\<rparr>"
| "effect (MediaCreate m) st = st\<lparr>media_rows := media_rows st @ [m]\<rparr>"
| "effect (MediaUpdate i p) st =
     st\<lparr>media_rows :=
          map (\<lambda>m. if media_id m = i then apply_media_update p m else m) (media_rows st)\<rparr>"
| "effect (MediaDelete i) st =
     st\<lparr>media_rows := filter (\<lambda>m. media_id m \<noteq> i) (media_rows st)\<rparr>"

text \<open>One awaited call: \<open>True\<close> when it resolves, \<open>False\<close> when it rejects.\<close>

definition request :: "(nat \<Rightarrow> bool) \<Rightarrow> db_call \<Rightarrow> store \<Rightarrow> bool \<times> store" where
  "request rejects c st =
     (let st' = st\<lparr>calls := calls st @ [c]\<rparr>
      in if rejects (length (calls st)) then (False, st') else (True, effect c st'))"

definition db_ratings_list ::
    "(nat \<Rightarrow> bool) \<Rightarrow> rating_where \<Rightarrow> store \<Rightarrow> rating_rec list option \<times> store" where
  "db_ratings_list rejects q st =
     (case request rejects (RatingsList q) st of
        (True, st') \<Rightarrow> (Some (filter (matches q) (rating_rows st')), st')
      | (False, st') \<Rightarrow> (None, st'))"

text \<open>
  What the environment supplies during one handler run: the clock, the random suffix
  \<^verbatim>\<open>Math.random().toString(36).substr(2, 9)\<close>, and which store calls fail.
\<close>

record env =
  date_now :: nat
  random_suffix :: string
  iso_now :: string
  fails :: "nat \<Rightarrow> bool"

definition generated_id :: "string \<Rightarrow> env \<Rightarrow> string" where
  "generated_id kind e = kind @ ''_'' @ show_nat (date_now e) @ ''_'' @ random_suffix e"


section \<open>Catalog browser and rating workflow\<close>

text \<open>
  The state of the \<^verbatim>\<open>App\<close> component. \<open>userRatings\<close> is the in-memory dictionary
  from a media id to the current user's rating of it. (The flags \<^verbatim>\<open>loading\<close> and
  \<^verbatim>\<open>hoveredRating\<close> only steer rendering and are left out.)
\<close>

record app_state = ui +
  user :: "user_rec option"
  media :: "media_rec list"
  userRatings :: "string \<rightharpoonup> rating_rec"
  searchQuery :: string
  selectedMedia :: "media_rec option"
  showRatingDialog :: bool
  rating :: int
  review :: string

text \<open>\<^verbatim>\<open>ratings.forEach(rating => { ratingsMap[rating.mediaId] = rating })\<close>\<close>

definition ratingsMap :: "rating_rec list \<Rightarrow> (string \<rightharpoonup> rating_rec)" where
  "ratingsMap ratings = foldl (\<lambda>m r. m(rating_mediaId r \<mapsto> r)) Map.empty ratings"

text \<open>
  \<^verbatim>\<open>loadUserRatings\<close>: one list query scoped to the signed-in user. Reading
  \<^verbatim>\<open>user.id\<close> of an absent user throws inside the \<^verbatim>\<open>try\<close>; that and a rejected query
  are logged to the console only.
\<close>

definition loadUserRatings :: "env \<Rightarrow> app_state \<times> store \<Rightarrow> app_state \<times> store" where
  "loadUserRatings e = (\<lambda>(s, st).
     case user s of
       None \<Rightarrow> (s, st)
     | Some u \<Rightarrow>
         (case db_ratings_list (fails e)
                 \<lparr>where_userId = Some (user_id u), where_mediaId = None\<rparr> st of
            (None, st') \<Rightarrow> (s, st')
          | (Some ratings, st') \<Rightarrow> (s\<lparr>userRatings := ratingsMap ratings\<rparr>, st')))"

definition handleRateMedia :: "media_rec \<Rightarrow> app_state \<Rightarrow> app_state" where
  "handleRateMedia mediaItem s =
     (let existingRating = userRatings s (media_id mediaItem)
      in s\<lparr>selectedMedia := Some mediaItem,
           rating := (case existingRating of None \<Rightarrow> 0 | Some r \<Rightarrow> rating_value r),
           review := (case existingRating of None \<Rightarrow> [] | Some r \<Rightarrow> or_empty (rating_review r)),
           showRatingDialog := True\<rparr>)"

definition rating_required :: toast_rec where
  "rating_required =
     \<lparr>toast_title = ''Rating Required'',
      toast_description = ''Please select a rating before submitting.'',
      toast_variant = Destructive\<rparr>"

definition rating_failed :: toast_rec where
  "rating_failed =
     \<lparr>toast_title = ''Error'',
      toast_description = ''Failed to save your rating. Please try again.'',
      toast_variant = Destructive\<rparr>"

definition rating_saved :: "bool \<Rightarrow> string \<Rightarrow> int \<Rightarrow> toast_rec" where
  "rating_saved existing t r =
     \<lparr>toast_title = (if existing then ''Rating Updated'' else ''Rating Added''),
      toast_description = ''You rated '' @ quoted t @ '' '' @ show_int r @ ''/5 stars.'',
      toast_variant = Default\<rparr>"

text \<open>
  \<^verbatim>\<open>handleSubmitRating\<close>. Inside the \<^verbatim>\<open>try\<close>, reading \<^verbatim>\<open>selectedMedia.id\<close> or
  \<^verbatim>\<open>user.id\<close> of an absent value throws before any call is made, and a rejected call
  throws after it; both land in the \<^verbatim>\<open>catch\<close>.
\<close>

definition handleSubmitRating :: "env \<Rightarrow> app_state \<times> store \<Rightarrow> app_state \<times> store" where
  "handleSubmitRating e = (\<lambda>(s, st).
     if rating s = 0 then (toast rating_required s, st)
     else
       (case selectedMedia s of
          None \<Rightarrow> (toast rating_failed s, st)
        | Some sm \<Rightarrow>
            (case user s of
               None \<Rightarrow> (toast rating_failed s, st)
             | Some u \<Rightarrow>
                 (let existingRating = userRatings s (media_id sm);
                      ratingData =
                        \<lparr>rating_id =
                           (case existingRating of
                              None \<Rightarrow> generated_id ''rating'' e
                            | Some ex \<Rightarrow>
                                if rating_id ex = [] then generated_id ''rating'' e
                                else rating_id ex),
                         rating_userId = user_id u,
                         rating_mediaId = media_id sm,
                         rating_value = rating s,
                         rating_review = or_null (trim (review s)),
                         rating_updatedAt = None\<rparr>;
                      (ok, st') =
                        (case existingRating of
                           Some ex \<Rightarrow>
                             request (fails e)
                               (RatingsUpdate (rating_id ex)
                                  \<lparr>set_rating = rating s,
                                   set_review = or_null (trim (review s)),
                                   set_updatedAt = iso_now e\<rparr>) st
                         | None \<Rightarrow> request (fails e) (RatingsCreate ratingData) st)
                  in if ok then
                       (toast (rating_saved (existingRating \<noteq> None) (media_title sm) (rating s))
                          (s\<lparr>userRatings := (userRatings s)(media_id sm \<mapsto> ratingData)\<rparr>)
                          \<lparr>showRatingDialog := False, rating := 0, review := []\<rparr>,
                        st')
                     else (toast rating_failed s, st')))))"



section \<open>Add-Media dialog\<close>

text \<open>
  The draft of a media form. The Add dialog keeps every field as a string; the Edit
  dialog keeps the release year as a number.
\<close>

record 'y formData =
  title :: string
  type :: string
  genre :: string
  releaseYear :: 'y
  description :: string
  coverImage :: string
  country :: string

text \<open>\<open>refreshes\<close> counts the calls of the parent's refresh callback.\<close>

record 'y media_dialog = ui +
  "open" :: bool
  loading :: bool
  formData :: "'y formData"
  refreshes :: nat

definition empty_form :: "string formData" where
  "empty_form =
     \<lparr>title = [], type = [], genre = [], releaseYear = [],
      description = [], coverImage = [], country = []\<rparr>"

text \<open>
  \<^verbatim>\<open>{...prev, [field]: value}\<close>: the draft with one field replaced. A key that is none
  of the seven fields adds a property that nothing reads; the seven fields stay.
\<close>

definition set_field :: "string \<Rightarrow> string \<Rightarrow> string formData \<Rightarrow> string formData" where
  "set_field field v prev =
     (if field = ''title'' then prev\<lparr>title := v\<rparr>
      else if field = ''type'' then prev\<lparr>type := v\<rparr>
      else if field = ''genre'' then prev\<lparr>genre := v\<rparr>
      else if field = ''releaseYear'' then prev\<lparr>releaseYear := v\<rparr>
      else if field = ''description'' then prev\<lparr>description := v\<rparr>
      else if field = ''coverImage'' then prev\<lparr>coverImage := v\<rparr>
      else if field = ''country'' then prev\<lparr>country := v\<rparr>
      else prev)"

definition handleInputChange :: "string \<Rightarrow> string \<Rightarrow> string formData \<Rightarrow> string formData" where
  "handleInputChange field v prev =
     (let d = set_field field v prev
      in if field = ''type'' then d\<lparr>genre := []\<rparr> else d)"

definition missing_information :: toast_rec where
  "missing_information =
     \<lparr>toast_title = ''Missing Information'',
      toast_description = ''Please fill in all required fields.'',
      toast_variant = Destructive\<rparr>"

definition media_added :: "string \<Rightarrow> toast_rec" where
  "media_added t =
     \<lparr>toast_title = ''Media Added Successfully!'',
      toast_description = quoted t @ '' has been added to the database.'',
      toast_variant = Default\<rparr>"

definition add_failed :: toast_rec where
  "add_failed =
     \<lparr>toast_title = ''Error'',
      toast_description = ''Failed to add media. Please try again.'',
      toast_variant = Destructive\<rparr>"

definition mediaData :: "env \<Rightarrow> string formData \<Rightarrow> media_rec" where
  "mediaData e fd =
     \<lparr>media_id = generated_id ''media'' e,
      media_title = trim (title fd),
      media_type = type fd,
      media_genre = genre fd,
      media_releaseYear = parseInt (releaseYear fd),
      media_description = or_null (trim (description fd)),
      media_coverImage = or_null (trim (coverImage fd)),
      media_country = or_null (country fd),
      media_createdAt = Some (iso_now e),
      media_updatedAt = None\<rparr>"

text \<open>\<^verbatim>\<open>handleSubmit\<close> of the Add dialog.\<close>

definition add_handleSubmit ::
    "env \<Rightarrow> string media_dialog \<times> store \<Rightarrow> string media_dialog \<times> store" where
  "add_handleSubmit e = (\<lambda>(d, st).
     if title (formData d) = [] \<or> type (formData d) = [] \<or>
        genre (formData d) = [] \<or> releaseYear (formData d) = []
     then (toast missing_information d, st)
     else
       (case request (fails e) (MediaCreate (mediaData e (formData d))) st of
          (True, st') \<Rightarrow>
            ((toast (media_added (title (formData d))) (d\<lparr>loading := True\<rparr>))
               \<lparr>formData := empty_form, open := False,
                refreshes := Suc (refreshes d), loading := False\<rparr>,
             st')
        | (False, st') \<Rightarrow> ((toast add_failed (d\<lparr>loading := True\<rparr>))\<lparr>loading := False\<rparr>, st')))"


section \<open>Edit-Media dialog\<close>

record 'y edit_dialog = "'y media_dialog" +
  showDeleteConfirm :: bool

definition title_required :: toast_rec where
  "title_required =
     \<lparr>toast_title = ''Title Required'',
      toast_description = ''Please enter a title for the media.'',
      toast_variant = Destructive\<rparr>"

definition media_updated :: "string \<Rightarrow> toast_rec" where
  "media_updated t =
     \<lparr>toast_title = ''Media Updated'',
      toast_description = quoted t @ '' has been updated successfully.'',
      toast_variant = Default\<rparr>"

definition update_failed :: toast_rec where
  "update_failed =
     \<lparr>toast_title = ''Error'',
      toast_description = ''Failed to update media. Please try again.'',
      toast_variant = Destructive\<rparr>"

definition media_deleted :: "string \<Rightarrow> toast_rec" where
  "media_deleted t =
     \<lparr>toast_title = ''Media Deleted'',
      toast_description = quoted t @ '' has been deleted successfully.'',
      toast_variant = Default\<rparr>"

definition delete_failed :: toast_rec where
  "delete_failed =
     \<lparr>toast_title = ''Error'',
      toast_description = ''Failed to delete media. Please try again.'',
      toast_variant = Destructive\<rparr>"

text \<open>\<^verbatim>\<open>{...formData, title: .., description: .., coverImage: .., updatedAt: ..}\<close>\<close>

definition updatedData :: "env \<Rightarrow> int formData \<Rightarrow> media_update" where
  "updatedData e fd =
     \<lparr>set_title = trim (title fd),
      set_type = type fd,
      set_genre = genre fd,
      set_releaseYear = releaseYear fd,
      set_country = country fd,
      set_description = or_null (trim (description fd)),
      set_coverImage = or_null (trim (coverImage fd)),
      set_media_updatedAt = iso_now e\<rparr>"

text \<open>\<^verbatim>\<open>handleSubmit\<close> of the Edit dialog, for the media record passed as a prop.\<close>

definition edit_handleSubmit ::
    "env \<Rightarrow> media_rec \<Rightarrow> int edit_dialog \<times> store \<Rightarrow> int edit_dialog \<times> store" where
  "edit_handleSubmit e m = (\<lambda>(d, st).
     if trim (title (formData d)) = [] then (toast title_required d, st)
     else
       (case request (fails e) (MediaUpdate (media_id m) (updatedData e (formData d))) st of
          (True, st') \<Rightarrow>
            ((toast (media_updated (title (formData d))) (d\<lparr>loading := True\<rparr>))
               \<lparr>open := False, refreshes := Suc (refreshes d), loading := False\<rparr>,
             st')
        | (False, st') \<Rightarrow>
            ((toast update_failed (d\<lparr>loading := True\<rparr>))\<lparr>loading := False\<rparr>, st')))"

text \<open>\<^verbatim>\<open>for (const rating of ratings) { await blink.db.ratings.delete(rating.id) }\<close>\<close>

fun delete_ratings :: "(nat \<Rightarrow> bool) \<Rightarrow> rating_rec list \<Rightarrow> store \<Rightarrow> bool \<times> store" where
  "delete_ratings rejects [] st = (True, st)"
| "delete_ratings rejects (r # rs) st =
     (case request rejects (RatingsDelete (rating_id r)) st of
        (True, st') \<Rightarrow> delete_ratings rejects rs st'
      | (False, st') \<Rightarrow> (False, st'))"

text \<open>\<^verbatim>\<open>handleDelete\<close>, run when the deletion has been confirmed.\<close>

definition handleDelete ::
    "env \<Rightarrow> media_rec \<Rightarrow> 'y edit_dialog \<times> store \<Rightarrow> 'y edit_dialog \<times> store" where
  "handleDelete e m = (\<lambda>(d, st).
     let failed = (toast delete_failed (d\<lparr>loading := True\<rparr>))\<lparr>loading := False\<rparr>
     in case db_ratings_list (fails e)
               \<lparr>where_userId = None, where_mediaId = Some (media_id m)\<rparr> st of
          (None, st1) \<Rightarrow> (failed, st1)
        | (Some ratings, st1) \<Rightarrow>
            (case delete_ratings (fails e) ratings st1 of
               (False, st2) \<Rightarrow> (failed, st2)
             | (True, st2) \<Rightarrow>
                 (case request (fails e) (MediaDelete (media_id m)) st2 of
                    (False, st3) \<Rightarrow> (failed, st3)
                  | (True, st3) \<Rightarrow>
                      ((toast (media_deleted (media_title m)) (d\<lparr>loading := True\<rparr>))
                         \<lparr>open := False, showDeleteConfirm := False,
                          refreshes := Suc (refreshes d), loading := False\<rparr>,
                       st3))))"


section \<open>Vocabulary of the properties\<close>

text \<open>The stored ratings that reference a media id, and the stored media with that id.\<close>

definition ratings_for :: "string \<Rightarrow> store \<Rightarrow> rating_rec list" where
  "ratings_for mid st = filter (\<lambda>r. rating_mediaId r = mid) (rating_rows st)"

definition media_for :: "string \<Rightarrow> store \<Rightarrow> media_rec list" where
  "media_for mid st = filter (\<lambda>m. media_id m = mid) (media_rows st)"

definition delete_calls :: "rating_rec list \<Rightarrow> db_call list" where
  "delete_calls rs = map (\<lambda>r. RatingsDelete (rating_id r)) rs"

text \<open>The query of the delete cascade.\<close>

definition cascade_query :: "media_rec \<Rightarrow> rating_where" where
  "cascade_query m = \<lparr>where_userId = None, where_mediaId = Some (media_id m)\<rparr>"

text \<open>The calls a handler has added to the log of the store.\<close>

definition issued :: "store \<Rightarrow> store \<Rightarrow> db_call list" where
  "issued st st' = drop (length (calls st)) (calls st')"

text \<open>A call carries a user condition when it is no ratings query, or one with a user id.\<close>

definition has_userId_condition :: "db_call \<Rightarrow> bool" where
  "has_userId_condition c =
     (case c of RatingsList q \<Rightarrow> where_userId q \<noteq> None | _ \<Rightarrow> True)"

definition is_ratings_list :: "db_call \<Rightarrow> bool" where
  "is_ratings_list c = (case c of RatingsList q \<Rightarrow> True | _ \<Rightarrow> False)"


section \<open>Example data\<close>

definition matrix :: media_rec where
  "matrix =
     \<lparr>media_id = ''media_1'', media_title = ''The Matrix'', media_type = ''movie'',
      media_genre = ''Action'', media_releaseYear = Num 1999,
      media_description = Some ''A hacker learns the truth'', media_coverImage = None,
      media_country = Some ''United States'',
      media_createdAt = Some ''2024-01-01T00:00:00.000Z'', media_updatedAt = None\<rparr>"

definition dune :: media_rec where
  "dune =
     \<lparr>media_id = ''media_2'', media_title = ''Dune'', media_type = ''book'',
      media_genre = ''Science Fiction'', media_releaseYear = Num 1965,
      media_description = None, media_coverImage = None, media_country = None,
      media_createdAt = Some ''2024-01-02T00:00:00.000Z'', media_updatedAt = None\<rparr>"

definition rating_of :: "string \<Rightarrow> string \<Rightarrow> string \<Rightarrow> int \<Rightarrow> rating_rec" where
  "rating_of i u m v =
     \<lparr>rating_id = i, rating_userId = u, rating_mediaId = m, rating_value = v,
      rating_review = None, rating_updatedAt = None\<rparr>"

definition store0 :: store where
  "store0 =
     \<lparr>media_rows = [matrix, dune],
      rating_rows =
        [rating_of ''rating_1'' ''user_1'' ''media_1'' 3,
         rating_of ''rating_2'' ''user_2'' ''media_1'' 4,
         rating_of ''rating_3'' ''user_1'' ''media_2'' 5,
         rating_of ''rating_4'' ''user_3'' ''media_1'' 2],
      calls = []\<rparr>"

definition env0 :: env where
  "env0 =
     \<lparr>date_now = 1714557600000, random_suffix = ''k3j9x0q2w'',
      iso_now = ''2024-05-01T10:00:00.000Z'', fails = (\<lambda>n. False)\<rparr>"

definition env_rejecting :: "nat \<Rightarrow> env" where
  "env_rejecting k = env0\<lparr>fails := (\<lambda>n. n = k)\<rparr>"

definition app0 :: app_state where
  "app0 =
     \<lparr>toasts = [], user = Some \<lparr>user_id = ''user_1''\<rparr>, media = [matrix, dune],
      userRatings = Map.empty, searchQuery = [], selectedMedia = Some matrix,
      showRatingDialog = True, rating = 4, review = []\<rparr>"

definition app1 :: app_state where
  "app1 =
     app0\<lparr>userRatings :=
            [''media_1'' \<mapsto>
               (rating_of ''rating_1'' ''user_1'' ''media_1'' 3)
                 \<lparr>rating_updatedAt := Some ''2024-02-02T00:00:00.000Z''\<rparr>],
          rating := 5, review := ''   ''\<rparr>"

definition add0 :: "string media_dialog" where
  "add0 =
     \<lparr>toasts = [], open = True, loading = False,
      formData =
        \<lparr>title = ''Dune'', type = ''movie'', genre = ''Action'', releaseYear = ''1984'',
         description = [], coverImage = [], country = []\<rparr>,
      refreshes = 0\<rparr>"

definition edit0 :: "int edit_dialog" where
  "edit0 =
     \<lparr>toasts = [], open = True, loading = False,
      formData =
        \<lparr>title = '' The Matrix '', type = ''movie'', genre = [], releaseYear = 1999,
         description = ''  '', coverImage = [], country = []\<rparr>,
      refreshes = 0, showDeleteConfirm = True\<rparr>"

declare show_nat.simps [simp del]


section \<open>Auxiliary facts\<close>



lemma request_ok:
  "\<not> f (length (calls st)) \<Longrightarrow> request f c st = (True, effect c (st\<lparr>calls := calls st @ [c]\<rparr>))"
  by (simp add: request_def Let_def)

lemma request_rejected:
  "f (length (calls st)) \<Longrightarrow> request f c st = (False, st\<lparr>calls := calls st @ [c]\<rparr>)"
  by (simp add: request_def Let_def)

lemma delete_ratings_ok:
  "\<forall>i < length rs. \<not> f (length (calls st) + i) \<Longrightarrow>
   delete_ratings f rs st =
     (True, st\<lparr>calls := calls st @ delete_calls rs,
              rating_rows := filter (\<lambda>r. rating_id r \<notin> rating_id ` set rs) (rating_rows st)\<rparr>)"
proof (induction rs arbitrary: st)
  case Nil
  then show ?case by (simp add: delete_calls_def)
next
  case (Cons r rs)
  let ?c = "RatingsDelete (rating_id r)"
  let ?st = "effect ?c (st\<lparr>calls := calls st @ [?c]\<rparr>)"
  from Cons.prems have "\<not> f (length (calls st))" by force
  then have step: "request f ?c st = (True, ?st)" by (rule request_ok)
  have "\<forall>i < length rs. \<not> f (length (calls ?st) + i)"
  proof (intro allI impI)
    fix i assume "i < length rs"
    then have "Suc i < length (r # rs)" by simp
    with Cons.prems have "\<not> f (length (calls st) + Suc i)" by blast
    then show "\<not> f (length (calls ?st) + i)" by simp
  qed
  then have "delete_ratings f rs ?st =
     (True, ?st\<lparr>calls := calls ?st @ delete_calls rs,
              rating_rows := filter (\<lambda>r. rating_id r \<notin> rating_id ` set rs) (rating_rows ?st)\<rparr>)"
    by (rule Cons.IH)
  with step show ?case
    by (auto simp: delete_calls_def intro!: filter_cong)
qed

lemma delete_ratings_rejected:
  "j < length rs \<Longrightarrow> \<forall>i < j. \<not> f (length (calls st) + i) \<Longrightarrow> f (length (calls st) + j) \<Longrightarrow>
   delete_ratings f rs st =
     (False, st\<lparr>calls := calls st @ delete_calls (take (Suc j) rs),
               rating_rows :=
                 filter (\<lambda>r. rating_id r \<notin> rating_id ` set (take j rs)) (rating_rows st)\<rparr>)"
proof (induction rs arbitrary: st j)
  case Nil
  then show ?case by simp
next
  case (Cons r rs)
  let ?c = "RatingsDelete (rating_id r)"
  show ?case
  proof (cases j)
    case 0
    with Cons.prems have "f (length (calls st))" by simp
    then have "request f ?c st = (False, st\<lparr>calls := calls st @ [?c]\<rparr>)"
      by (rule request_rejected)
    with 0 show ?thesis by (simp add: delete_calls_def)
  next
    case (Suc j')
    let ?st = "effect ?c (st\<lparr>calls := calls st @ [?c]\<rparr>)"
    from Cons.prems Suc have "\<not> f (length (calls st))" by force
    then have step: "request f ?c st = (True, ?st)" by (rule request_ok)
    from Cons.prems Suc have a: "j' < length rs" by simp
    have b: "\<forall>i < j'. \<not> f (length (calls ?st) + i)"
    proof (intro allI impI)
      fix i assume "i < j'"
      then have "Suc i < j" using Suc by simp
      with Cons.prems have "\<not> f (length (calls st) + Suc i)" by blast
      then show "\<not> f (length (calls ?st) + i)" by simp
    qed
    from Cons.prems Suc have c: "f (length (calls ?st) + j')" by simp
    from a b c have "delete_ratings f rs ?st =
     (False, ?st\<lparr>calls := calls ?st @ delete_calls (take (Suc j') rs),
               rating_rows :=
                 filter (\<lambda>r. rating_id r \<notin> rating_id ` set (take j' rs)) (rating_rows ?st)\<rparr>)"
      by (rule Cons.IH)
    with step Suc show ?thesis
      by (auto simp: delete_calls_def intro!: filter_cong)
  qed
qed

lemma filter_not_prefix:
  "set ys \<inter> set zs = {} \<Longrightarrow> filter (\<lambda>x. x \<notin> set ys) (ys @ zs) = zs"
  by (auto simp: filter_empty_conv filter_id_conv)

lemma filter_not_taken:
  assumes "distinct xs"
  shows "filter (\<lambda>x. x \<notin> set (take j xs)) xs = drop j xs"
proof -
  have "set (take j xs) \<inter> set (drop j xs) = {}"
    using assms by (simp add: set_take_disj_set_drop_if_distinct)
  then have "filter (\<lambda>x. x \<notin> set (take j xs)) (take j xs @ drop j xs) = drop j xs"
    by (rule filter_not_prefix)
  then show ?thesis by (simp only: append_take_drop_id)
qed

lemma length_filter_removed:
  assumes "distinct xs" and "set ys \<subseteq> set xs" and "distinct ys"
  shows "length (filter (\<lambda>x. x \<notin> set ys) xs) = length xs - length ys"
proof -
  have "length (filter (\<lambda>x. x \<in> set ys) xs) = card ({x. x \<in> set ys} \<inter> set xs)"
    using assms(1) by (rule distinct_length_filter)
  also have "{x. x \<in> set ys} \<inter> set xs = set ys" using assms(2) by auto
  also have "card (set ys) = length ys" using assms(3) by (rule distinct_card)
  finally have "length (filter (\<lambda>x. x \<in> set ys) xs) = length ys" .
  moreover have "length (filter (\<lambda>x. x \<in> set ys) xs) + length (filter (\<lambda>x. \<not> x \<in> set ys) xs) = length xs"
    by (rule sum_length_filter_compl)
  ultimately show ?thesis by simp
qed

lemma cascade_list:
  "\<not> f (length (calls st)) \<Longrightarrow>
   db_ratings_list f (cascade_query m) st =
     (Some (ratings_for (media_id m) st), st\<lparr>calls := calls st @ [RatingsList (cascade_query m)]\<rparr>)"
proof -
  have "matches (cascade_query m) = (\<lambda>r. rating_mediaId r = media_id m)"
    by (rule ext) (simp add: matches_def cascade_query_def)
  moreover assume "\<not> f (length (calls st))"
  ultimately show ?thesis
    by (simp add: db_ratings_list_def request_def Let_def ratings_for_def)
qed

lemma handleDelete_all_ok:
  assumes ok: "\<forall>i \<le> Suc (length (ratings_for (media_id m) st)). \<not> fails e (length (calls st) + i)"
  shows "snd (handleDelete e m (d, st)) =
     st\<lparr>calls := calls st @ RatingsList (cascade_query m) #
                  delete_calls (ratings_for (media_id m) st) @ [MediaDelete (media_id m)],
        rating_rows := filter (\<lambda>r. rating_id r \<notin> rating_id ` set (ratings_for (media_id m) st))
                         (rating_rows st),
        media_rows := filter (\<lambda>x. media_id x \<noteq> media_id m) (media_rows st)\<rparr>"
proof -
  let ?rs = "ratings_for (media_id m) st"
  let ?st1 = "st\<lparr>calls := calls st @ [RatingsList (cascade_query m)]\<rparr>"
  let ?st2 = "?st1\<lparr>calls := calls ?st1 @ delete_calls ?rs,
              rating_rows := filter (\<lambda>r. rating_id r \<notin> rating_id ` set ?rs) (rating_rows ?st1)\<rparr>"
  from ok have "\<not> fails e (length (calls st) + 0)" by blast
  then have l: "db_ratings_list (fails e) (cascade_query m) st = (Some ?rs, ?st1)"
    by (simp add: cascade_list)
  have "\<forall>i < length ?rs. \<not> fails e (length (calls ?st1) + i)"
  proof (intro allI impI)
    fix i assume "i < length ?rs"
    then have "Suc i \<le> Suc (length ?rs)" by simp
    with ok have "\<not> fails e (length (calls st) + Suc i)" by blast
    then show "\<not> fails e (length (calls ?st1) + i)" by simp
  qed
  then have dl: "delete_ratings (fails e) ?rs ?st1 = (True, ?st2)"
    by (rule delete_ratings_ok)
  from ok have "\<not> fails e (length (calls st) + Suc (length ?rs))" by blast
  then have "\<not> fails e (length (calls ?st2))" by (simp add: delete_calls_def)
  then have md: "request (fails e) (MediaDelete (media_id m)) ?st2 =
       (True, effect (MediaDelete (media_id m)) (?st2\<lparr>calls := calls ?st2 @ [MediaDelete (media_id m)]\<rparr>))"
    by (rule request_ok)
  have "snd (handleDelete e m (d, st)) =
      effect (MediaDelete (media_id m)) (?st2\<lparr>calls := calls ?st2 @ [MediaDelete (media_id m)]\<rparr>)"
    unfolding handleDelete_def cascade_query_def [symmetric]
    by (simp only: Let_def l dl md prod.case option.case bool.case snd_conv)
  then show ?thesis
    by (simp add: delete_calls_def)
qed

lemma handleDelete_kth_rejected:
  assumes k: "1 \<le> k" "k \<le> length (ratings_for (media_id m) st)"
    and ok: "\<forall>i < k. \<not> fails e (length (calls st) + i)"
    and bad: "fails e (length (calls st) + k)"
  shows "handleDelete e m (d, st) =
     (d\<lparr>toasts := toasts d @ [delete_failed]\<rparr>\<lparr>loading := False\<rparr>,
      st\<lparr>calls := calls st @ RatingsList (cascade_query m) #
                  delete_calls (take k (ratings_for (media_id m) st)),
        rating_rows :=
          filter (\<lambda>r. rating_id r \<notin> rating_id ` set (take (k - 1) (ratings_for (media_id m) st)))
            (rating_rows st)\<rparr>)"
proof -
  let ?rs = "ratings_for (media_id m) st"
  let ?st1 = "st\<lparr>calls := calls st @ [RatingsList (cascade_query m)]\<rparr>"
  from k ok have "\<not> fails e (length (calls st) + 0)" by force
  then have l: "db_ratings_list (fails e) (cascade_query m) st = (Some ?rs, ?st1)"
    by (simp add: cascade_list)
  from k have a: "k - 1 < length ?rs" by simp
  have b: "\<forall>i < k - 1. \<not> fails e (length (calls ?st1) + i)"
  proof (intro allI impI)
    fix i assume "i < k - 1"
    then have "Suc i < k" by simp
    with ok have "\<not> fails e (length (calls st) + Suc i)" by blast
    then show "\<not> fails e (length (calls ?st1) + i)" by simp
  qed
  from k bad have c: "fails e (length (calls ?st1) + (k - 1))" by simp
  from k have sk: "Suc (k - Suc 0) = k" by simp
  from a b c have dl: "delete_ratings (fails e) ?rs ?st1 =
     (False, ?st1\<lparr>calls := calls ?st1 @ delete_calls (take (Suc (k - 1)) ?rs),
               rating_rows :=
                 filter (\<lambda>r. rating_id r \<notin> rating_id ` set (take (k - 1) ?rs)) (rating_rows ?st1)\<rparr>)"
    by (rule delete_ratings_rejected)
  have "handleDelete e m (d, st) =
     ((toast delete_failed (d\<lparr>loading := True\<rparr>))\<lparr>loading := False\<rparr>,
      ?st1\<lparr>calls := calls ?st1 @ delete_calls (take (Suc (k - 1)) ?rs),
               rating_rows :=
                 filter (\<lambda>r. rating_id r \<notin> rating_id ` set (take (k - 1) ?rs)) (rating_rows ?st1)\<rparr>)"
    unfolding handleDelete_def cascade_query_def [symmetric]
    by (simp only: Let_def l dl prod.case option.case bool.case)
  then show ?thesis
    by (simp add: sk toast_def)
qed

lemma removed_by_id:
  assumes "distinct (map rating_id rows)" and "set sub \<subseteq> set rows"
  shows "filter (\<lambda>r. rating_id r \<notin> rating_id ` set sub) rows = filter (\<lambda>r. r \<notin> set sub) rows"
proof (rule filter_cong [OF refl])
  fix r assume r: "r \<in> set rows"
  from assms(1) have inj: "inj_on rating_id (set rows)" by (simp add: distinct_map)
  show "(rating_id r \<notin> rating_id ` set sub) = (r \<notin> set sub)"
  proof
    assume "rating_id r \<notin> rating_id ` set sub"
    then show "r \<notin> set sub" by blast
  next
    assume n: "r \<notin> set sub"
    show "rating_id r \<notin> rating_id ` set sub"
    proof
      assume "rating_id r \<in> rating_id ` set sub"
      then obtain x where x: "x \<in> set sub" "rating_id r = rating_id x" by blast
      with assms(2) have "x \<in> set rows" by blast
      with inj r x(2) have "r = x" by (simp add: inj_on_def)
      with x(1) n show False by simp
    qed
  qed
qed

lemma request_calls: "calls (snd (request f c st)) = calls st @ [c]"
  by (cases c) (simp_all add: request_def Let_def)

lemma delete_ratings_calls:
  "\<exists>j. calls (snd (delete_ratings f rs st)) = calls st @ delete_calls (take j rs)"
proof (induction rs arbitrary: st)
  case Nil
  then show ?case by (simp add: delete_calls_def)
next
  case (Cons r rs)
  let ?c = "RatingsDelete (rating_id r)"
  show ?case
  proof (cases "f (length (calls st))")
    case True
    then have "calls (snd (delete_ratings f (r # rs) st)) = calls st @ delete_calls (take 1 (r # rs))"
      by (simp add: request_rejected delete_calls_def)
    then show ?thesis by blast
  next
    case False
    let ?st = "effect ?c (st\<lparr>calls := calls st @ [?c]\<rparr>)"
    from Cons.IH [of ?st] obtain j where
      "calls (snd (delete_ratings f rs ?st)) = calls ?st @ delete_calls (take j rs)"
      by blast
    with False have "calls (snd (delete_ratings f (r # rs) st)) =
        calls st @ delete_calls (take (Suc j) (r # rs))"
      by (simp add: request_ok delete_calls_def)
    then show ?thesis by blast
  qed
qed

lemma no_list_in_deletes: "list_all (\<lambda>c. \<not> is_ratings_list c) (delete_calls rs)"
  by (simp add: delete_calls_def list_all_iff is_ratings_list_def)

lemma handleDelete_issued:
  "\<exists>rest. issued st (snd (handleDelete e m (d, st))) = RatingsList (cascade_query m) # rest \<and>
          list_all (\<lambda>c. \<not> is_ratings_list c) rest"
proof (cases "fails e (length (calls st))")
  case True
  then have "issued st (snd (handleDelete e m (d, st))) = [RatingsList (cascade_query m)]"
    by (simp add: handleDelete_def db_ratings_list_def request_rejected issued_def Let_def
          cascade_query_def)
  then show ?thesis by simp
next
  case False
  let ?rs = "ratings_for (media_id m) st"
  let ?st1 = "st\<lparr>calls := calls st @ [RatingsList (cascade_query m)]\<rparr>"
  from False have l: "db_ratings_list (fails e) (cascade_query m) st = (Some ?rs, ?st1)"
    by (rule cascade_list)
  obtain b st2 where dl: "delete_ratings (fails e) ?rs ?st1 = (b, st2)"
    by (cases "delete_ratings (fails e) ?rs ?st1")
  from delete_ratings_calls [of "fails e" ?rs ?st1] dl obtain j where
    c2: "calls st2 = calls ?st1 @ delete_calls (take j ?rs)"
    by auto
  show ?thesis
  proof (cases b)
    case False
    with l dl have "snd (handleDelete e m (d, st)) = st2"
      unfolding handleDelete_def cascade_query_def [symmetric]
      by (simp only: Let_def prod.case option.case bool.case snd_conv)
    with c2 have "issued st (snd (handleDelete e m (d, st))) =
        RatingsList (cascade_query m) # delete_calls (take j ?rs)"
      by (simp add: issued_def)
    with no_list_in_deletes [of "take j ?rs"] show ?thesis by simp
  next
    case True
    with l dl have "snd (handleDelete e m (d, st)) =
        snd (request (fails e) (MediaDelete (media_id m)) st2)"
      unfolding handleDelete_def cascade_query_def [symmetric]
      by (simp only: Let_def prod.case option.case bool.case snd_conv split: prod.split bool.split)
         (simp split: prod.split bool.split)
    with c2 have "issued st (snd (handleDelete e m (d, st))) =
        RatingsList (cascade_query m) # delete_calls (take j ?rs) @ [MediaDelete (media_id m)]"
      by (simp add: issued_def request_calls)
    with no_list_in_deletes [of "take j ?rs"] show ?thesis
      by (simp add: is_ratings_list_def)
  qed
qed



section \<open>Search filter\<close>




section \<open>Local validation\<close>

text \<open>
  C3. Submitting the rating dialog while the rating is 0 leaves the store as it was, so
  that no create and no update call is issued, and changes nothing of the component but
  the notifications: the rating map, the dialog flag and both inputs stay, and the
  ``Rating Required'' message is raised.
\<close>

theorem handleSubmitRating_unset:
  assumes "rating s = 0"
  shows "handleSubmitRating e (s, st) = (s\<lparr>toasts := toasts s @ [rating_required]\<rparr>, st)"
  using assms by (simp add: handleSubmitRating_def toast_def)

theorem handleSubmitRating_unset_witness:
  "rating (app0\<lparr>rating := 0\<rparr>) = 0 \<and>
   handleSubmitRating env0 (app0\<lparr>rating := 0\<rparr>, store0) =
     (app0\<lparr>rating := 0, toasts := [rating_required]\<rparr>, store0)"
  using handleSubmitRating_unset [of "app0\<lparr>rating := 0\<rparr>" env0 store0]
  by (simp add: app0_def)

text \<open>
  C6. When one of title, type, genre and release year of the Add draft is empty, the
  submission leaves the store as it was (no create call), keeps the draft and the open
  dialog, and raises the ``Missing Information'' message. Whenever the submission adds
  a call to the log, all four fields are non-empty and the call is the one create call.
\<close>

theorem add_handleSubmit_validation:
  "(title (formData d) = [] \<or> type (formData d) = [] \<or>
    genre (formData d) = [] \<or> releaseYear (formData d) = [] \<longrightarrow>
      add_handleSubmit e (d, st) = (d\<lparr>toasts := toasts d @ [missing_information]\<rparr>, st)) \<and>
   (calls (snd (add_handleSubmit e (d, st))) \<noteq> calls st \<longrightarrow>
      title (formData d) \<noteq> [] \<and> type (formData d) \<noteq> [] \<and>
      genre (formData d) \<noteq> [] \<and> releaseYear (formData d) \<noteq> [] \<and>
      calls (snd (add_handleSubmit e (d, st))) = calls st @ [MediaCreate (mediaData e (formData d))])"
  by (auto simp: add_handleSubmit_def toast_def request_def Let_def split: prod.splits)

theorem add_handleSubmit_validation_witness:
  "genre (formData (add0\<lparr>formData := (formData add0)\<lparr>genre := []\<rparr>\<rparr>)) = [] \<and>
   add_handleSubmit env0 (add0\<lparr>formData := (formData add0)\<lparr>genre := []\<rparr>\<rparr>, store0) =
     (add0\<lparr>formData := (formData add0)\<lparr>genre := []\<rparr>, toasts := [missing_information]\<rparr>, store0) \<and>
   calls (snd (add_handleSubmit env0 (add0, store0))) \<noteq> calls store0 \<and>
   calls (snd (add_handleSubmit env0 (add0, store0))) =
     calls store0 @ [MediaCreate (mediaData env0 (formData add0))]"
proof -
  let ?d = "add0\<lparr>formData := (formData add0)\<lparr>genre := []\<rparr>\<rparr>"
  have h: "genre (formData ?d) = []" by simp
  have "toasts ?d = []" by (simp add: add0_def)
  with add_handleSubmit_validation [of ?d env0 store0] h
  have a: "add_handleSubmit env0 (?d, store0) =
      (add0\<lparr>formData := (formData add0)\<lparr>genre := []\<rparr>, toasts := [missing_information]\<rparr>, store0)"
    by simp
  have b: "calls (snd (add_handleSubmit env0 (add0, store0))) \<noteq> calls store0"
    by (simp add: add_handleSubmit_def add0_def request_def env0_def store0_def)
  with add_handleSubmit_validation [of add0 env0 store0]
  have c: "calls (snd (add_handleSubmit env0 (add0, store0))) =
     calls store0 @ [MediaCreate (mediaData env0 (formData add0))]"
    by blast
  from h a b c show ?thesis by blast
qed


section \<open>Type change in the Add draft\<close>

text \<open>
  C7, as the claim states it, fails for the field \<^verbatim>\<open>genre\<close> itself: a change of a field
  other than \<^verbatim>\<open>type\<close> does not always leave the genre as it was.
\<close>

theorem handleInputChange_unchanged_counterexample:
  "''genre'' \<noteq> ''type'' \<and>
   genre (handleInputChange ''genre'' ''Drama'' (formData add0)) \<noteq> genre (formData add0)"
  by (simp add: handleInputChange_def set_field_def add0_def)

text \<open>
  C7, amended. A change of \<^verbatim>\<open>type\<close> sets the type to the new value and the genre to
  the empty string, whatever it was, and keeps title, release year, description, cover
  image and country. A change of a field other than \<^verbatim>\<open>type\<close> and \<^verbatim>\<open>genre\<close> keeps the
  genre, and a change of \<^verbatim>\<open>genre\<close> sets it to the new value.
\<close>

theorem handleInputChange_type:
  "handleInputChange ''type'' v fd = fd\<lparr>type := v, genre := []\<rparr> \<and>
   (field \<noteq> ''type'' \<and> field \<noteq> ''genre'' \<longrightarrow> genre (handleInputChange field v fd) = genre fd) \<and>
   genre (handleInputChange ''genre'' v fd) = v"
  by (simp add: handleInputChange_def set_field_def)

theorem handleInputChange_type_witness:
  "handleInputChange ''type'' ''book'' (formData add0) =
     \<lparr>title = ''Dune'', type = ''book'', genre = [], releaseYear = ''1984'',
      description = [], coverImage = [], country = []\<rparr> \<and>
   ''title'' \<noteq> ''type'' \<and> ''title'' \<noteq> ''genre'' \<and>
   genre (handleInputChange ''title'' ''Dune II'' (formData add0)) = ''Action'' \<and>
   genre (handleInputChange ''genre'' ''Drama'' (formData add0)) = ''Drama''"
  using handleInputChange_type [of "''book''" "formData add0" "''title''" ]
    handleInputChange_type [of "''Dune II''" "formData add0" "''title''"]
    handleInputChange_type [of "''Drama''" "formData add0" "''title''"]
  by (simp add: add0_def)


section \<open>Rating workflow\<close>





text \<open>
  C10. After a successful update the map entry of the selected media is the object built
  from id, user id, media id, rating and review only: it has no \<^verbatim>\<open>updatedAt\<close>,
  whatever the entry held before, although the update call carried the time stamp and
  the stored rating now has it.
\<close>

theorem handleSubmitRating_update_entry:
  assumes "rating s \<noteq> 0" and "selectedMedia s = Some sm" and "user s = Some u"
    and "userRatings s (media_id sm) = Some ex"
    and "\<not> fails e (length (calls st))"
    and "handleSubmitRating e (s, st) = (s', st')"
  shows "userRatings s' (media_id sm) =
           Some \<lparr>rating_id =
                    (if rating_id ex = [] then generated_id ''rating'' e else rating_id ex),
                 rating_userId = user_id u, rating_mediaId = media_id sm,
                 rating_value = rating s, rating_review = or_null (trim (review s)),
                 rating_updatedAt = None\<rparr> \<and>
         calls st' = calls st @
           [RatingsUpdate (rating_id ex)
              \<lparr>set_rating = rating s, set_review = or_null (trim (review s)),
               set_updatedAt = iso_now e\<rparr>] \<and>
         (\<forall>row \<in> set (rating_rows st').
            rating_id row = rating_id ex \<longrightarrow> rating_updatedAt row = Some (iso_now e))"
  using assms
  by (auto simp: handleSubmitRating_def request_def toast_def Let_def apply_rating_update_def
           split: if_splits)

theorem handleSubmitRating_update_entry_witness:
  "(\<exists>ex. userRatings app1 ''media_1'' = Some ex \<and>
         rating_updatedAt ex = Some ''2024-02-02T00:00:00.000Z'') \<and>
   userRatings (fst (handleSubmitRating env0 (app1, store0))) ''media_1'' =
     Some \<lparr>rating_id = ''rating_1'', rating_userId = ''user_1'', rating_mediaId = ''media_1'',
           rating_value = 5, rating_review = None, rating_updatedAt = None\<rparr> \<and>
   calls (snd (handleSubmitRating env0 (app1, store0))) =
     [RatingsUpdate ''rating_1''
        \<lparr>set_rating = 5, set_review = None, set_updatedAt = ''2024-05-01T10:00:00.000Z''\<rparr>] \<and>
   ratings_for ''media_1'' (snd (handleSubmitRating env0 (app1, store0))) =
     [(rating_of ''rating_1'' ''user_1'' ''media_1'' 5)
         \<lparr>rating_updatedAt := Some ''2024-05-01T10:00:00.000Z''\<rparr>,
      rating_of ''rating_2'' ''user_2'' ''media_1'' 4,
      rating_of ''rating_4'' ''user_3'' ''media_1'' 2]"
proof -
  let ?u = "\<lparr>user_id = ''user_1''\<rparr>"
  let ?ex = "(rating_of ''rating_1'' ''user_1'' ''media_1'' 3)
                 \<lparr>rating_updatedAt := Some ''2024-02-02T00:00:00.000Z''\<rparr>"
  have blank: "or_null (trim ''   '') = None"
    by (simp add: or_null_def trim_def is_space_def)
  have h1: "rating app1 \<noteq> 0" "selectedMedia app1 = Some matrix" "user app1 = Some ?u"
    by (simp_all add: app1_def app0_def)
  have e1: "userRatings app1 (media_id matrix) = Some ?ex"
    by (simp add: app1_def app0_def matrix_def)
  have ok: "\<not> fails env0 (length (calls store0))"
    by (simp add: env0_def)
  have run1: "handleSubmitRating env0 (app1, store0) =
      (fst (handleSubmitRating env0 (app1, store0)), snd (handleSubmitRating env0 (app1, store0)))"
    by simp
  have old: "\<exists>ex. userRatings app1 ''media_1'' = Some ex \<and>
         rating_updatedAt ex = Some ''2024-02-02T00:00:00.000Z''"
    by (simp add: app1_def app0_def rating_of_def)
  from handleSubmitRating_update_entry [OF h1 e1 ok run1]
  have a: "userRatings (fst (handleSubmitRating env0 (app1, store0))) ''media_1'' =
     Some \<lparr>rating_id = ''rating_1'', rating_userId = ''user_1'', rating_mediaId = ''media_1'',
           rating_value = 5, rating_review = None, rating_updatedAt = None\<rparr>"
    and b: "calls (snd (handleSubmitRating env0 (app1, store0))) =
     [RatingsUpdate ''rating_1''
        \<lparr>set_rating = 5, set_review = None, set_updatedAt = ''2024-05-01T10:00:00.000Z''\<rparr>]"
    by (simp_all add: blank app1_def app0_def matrix_def rating_of_def store0_def env0_def)
  have c: "ratings_for ''media_1'' (snd (handleSubmitRating env0 (app1, store0))) =
     [(rating_of ''rating_1'' ''user_1'' ''media_1'' 5)
         \<lparr>rating_updatedAt := Some ''2024-05-01T10:00:00.000Z''\<rparr>,
      rating_of ''rating_2'' ''user_2'' ''media_1'' 4,
      rating_of ''rating_4'' ''user_3'' ''media_1'' 2]"
    by (simp add: handleSubmitRating_def request_def toast_def Let_def apply_rating_update_def
          blank app1_def app0_def matrix_def rating_of_def store0_def env0_def ratings_for_def)
  from old a b c show ?thesis by blast
qed


section \<open>Delete cascade\<close>

text \<open>
  C2. A confirmed deletion of a media record, over a store holding the ratings
  \<open>ratings_for (media_id m) st\<close> of it. If no call fails, the log gains the query, then one
  delete per rating in order, then the single delete of the media record, and afterwards
  no rating references the id and no media record has it. If the \<open>k\<close>-th rating delete is
  the first call to fail (rating ids being unique in the store), the log ends with that
  call and holds no media delete, exactly the first \<open>k - 1\<close> ratings are gone, the other
  \<open>N - k + 1\<close> are still stored, the media records are untouched, and the dialog stays
  open with the failure message.
\<close>

theorem handleDelete_cascade:
  assumes run: "handleDelete e m (d, st) = (d', st')"
  shows
   "((\<forall>i \<le> Suc (length (ratings_for (media_id m) st)). \<not> fails e (length (calls st) + i)) \<longrightarrow>
       calls st' = calls st @ RatingsList (cascade_query m) #
                     delete_calls (ratings_for (media_id m) st) @ [MediaDelete (media_id m)] \<and>
       ratings_for (media_id m) st' = [] \<and>
       media_for (media_id m) st' = [])
    \<and>
    (\<forall>k. 1 \<le> k \<and> k \<le> length (ratings_for (media_id m) st) \<and>
         distinct (map rating_id (rating_rows st)) \<and>
         (\<forall>i < k. \<not> fails e (length (calls st) + i)) \<and>
         fails e (length (calls st) + k) \<longrightarrow>
       calls st' = calls st @ RatingsList (cascade_query m) #
                     delete_calls (take k (ratings_for (media_id m) st)) \<and>
       rating_rows st' =
         filter (\<lambda>r. r \<notin> set (take (k - 1) (ratings_for (media_id m) st))) (rating_rows st) \<and>
       length (rating_rows st') + (k - 1) = length (rating_rows st) \<and>
       ratings_for (media_id m) st' = drop (k - 1) (ratings_for (media_id m) st) \<and>
       length (ratings_for (media_id m) st') = length (ratings_for (media_id m) st) - k + 1 \<and>
       media_rows st' = media_rows st \<and>
       open d' = open d \<and>
       toasts d' = toasts d @ [delete_failed])"
proof (intro conjI impI allI)
  let ?rs = "ratings_for (media_id m) st"
  assume ok: "\<forall>i \<le> Suc (length ?rs). \<not> fails e (length (calls st) + i)"
  from handleDelete_all_ok [OF ok, of d] run
  have st': "st' = st\<lparr>calls := calls st @ RatingsList (cascade_query m) #
                  delete_calls ?rs @ [MediaDelete (media_id m)],
        rating_rows := filter (\<lambda>r. rating_id r \<notin> rating_id ` set ?rs) (rating_rows st),
        media_rows := filter (\<lambda>x. media_id x \<noteq> media_id m) (media_rows st)\<rparr>"
    by simp
  show "calls st' = calls st @ RatingsList (cascade_query m) #
                     delete_calls ?rs @ [MediaDelete (media_id m)]"
    by (simp add: st')
  show "ratings_for (media_id m) st' = []"
    by (auto simp: st' ratings_for_def filter_empty_conv)
  show "media_for (media_id m) st' = []"
    by (auto simp: st' media_for_def filter_empty_conv)
next
  fix k
  let ?rs = "ratings_for (media_id m) st"
  let ?gone = "take (k - 1) ?rs"
  assume h: "1 \<le> k \<and> k \<le> length ?rs \<and> distinct (map rating_id (rating_rows st)) \<and>
         (\<forall>i < k. \<not> fails e (length (calls st) + i)) \<and> fails e (length (calls st) + k)"
  then have k: "1 \<le> k" "k \<le> length ?rs"
    and dist: "distinct (map rating_id (rating_rows st))"
    and ok: "\<forall>i < k. \<not> fails e (length (calls st) + i)"
    and bad: "fails e (length (calls st) + k)"
    by blast+
  have sub: "set ?gone \<subseteq> set (rating_rows st)"
    using set_take_subset [of "k - 1" ?rs] by (auto simp: ratings_for_def)
  from dist have drows: "distinct (rating_rows st)" by (simp add: distinct_map)
  then have drs: "distinct ?rs" by (simp add: ratings_for_def)
  from handleDelete_kth_rejected [OF k ok bad, of d] run
  have d': "d' = d\<lparr>toasts := toasts d @ [delete_failed]\<rparr>\<lparr>loading := False\<rparr>"
    and st': "st' = st\<lparr>calls := calls st @ RatingsList (cascade_query m) # delete_calls (take k ?rs),
        rating_rows := filter (\<lambda>r. rating_id r \<notin> rating_id ` set ?gone) (rating_rows st)\<rparr>"
    by simp_all
  have rows: "rating_rows st' = filter (\<lambda>r. r \<notin> set ?gone) (rating_rows st)"
    using removed_by_id [OF dist sub] by (simp add: st')
  have len: "length (rating_rows st') = length (rating_rows st) - length ?gone"
    unfolding rows using drows sub drs by (intro length_filter_removed) simp_all
  have left: "ratings_for (media_id m) st' = drop (k - 1) ?rs"
  proof -
    have "ratings_for (media_id m) st' = filter (\<lambda>r. r \<notin> set ?gone) ?rs"
      by (simp add: ratings_for_def rows conj_commute)
    also have "\<dots> = drop (k - 1) ?rs" using drs by (rule filter_not_taken)
    finally show ?thesis .
  qed
  have "length ?rs \<le> length (rating_rows st)" by (simp add: ratings_for_def)
  with k len have len': "length (rating_rows st') + (k - 1) = length (rating_rows st)"
    by simp
  show "calls st' = calls st @ RatingsList (cascade_query m) # delete_calls (take k ?rs)"
    by (simp add: st')
  show "rating_rows st' = filter (\<lambda>r. r \<notin> set ?gone) (rating_rows st)" by (rule rows)
  show "length (rating_rows st') + (k - 1) = length (rating_rows st)" by (rule len')
  show "ratings_for (media_id m) st' = drop (k - 1) ?rs" by (rule left)
  show "length (ratings_for (media_id m) st') = length ?rs - k + 1"
    using k by (simp add: left)
  show "media_rows st' = media_rows st" by (simp add: st')
  show "open d' = open d" by (simp add: d')
  show "toasts d' = toasts d @ [delete_failed]" by (simp add: d')
qed

theorem handleDelete_cascade_witness:
  "calls (snd (handleDelete env0 matrix (edit0, store0))) =
     [RatingsList \<lparr>where_userId = None, where_mediaId = Some ''media_1''\<rparr>,
      RatingsDelete ''rating_1'', RatingsDelete ''rating_2'', RatingsDelete ''rating_4'',
      MediaDelete ''media_1''] \<and>
   ratings_for ''media_1'' (snd (handleDelete env0 matrix (edit0, store0))) = [] \<and>
   media_for ''media_1'' (snd (handleDelete env0 matrix (edit0, store0))) = [] \<and>
   calls (snd (handleDelete (env_rejecting 2) matrix (edit0, store0))) =
     [RatingsList \<lparr>where_userId = None, where_mediaId = Some ''media_1''\<rparr>,
      RatingsDelete ''rating_1'', RatingsDelete ''rating_2''] \<and>
   ratings_for ''media_1'' (snd (handleDelete (env_rejecting 2) matrix (edit0, store0))) =
     [rating_of ''rating_2'' ''user_2'' ''media_1'' 4,
      rating_of ''rating_4'' ''user_3'' ''media_1'' 2] \<and>
   length (rating_rows (snd (handleDelete (env_rejecting 2) matrix (edit0, store0)))) = 3 \<and>
   media_rows (snd (handleDelete (env_rejecting 2) matrix (edit0, store0))) = [matrix, dune]"
proof -
  have rs: "ratings_for ''media_1'' store0 =
      [rating_of ''rating_1'' ''user_1'' ''media_1'' 3,
       rating_of ''rating_2'' ''user_2'' ''media_1'' 4,
       rating_of ''rating_4'' ''user_3'' ''media_1'' 2]"
    by (simp add: ratings_for_def store0_def matrix_def rating_of_def)
  have mid: "media_id matrix = ''media_1''" by (simp add: matrix_def)
  have log: "calls store0 = []" "media_rows store0 = [matrix, dune]"
    "length (rating_rows store0) = 4"
    by (simp_all add: store0_def)
  have ok: "\<forall>i \<le> Suc (length (ratings_for (media_id matrix) store0)).
      \<not> fails env0 (length (calls store0) + i)"
    by (simp add: env0_def)
  have run0: "handleDelete env0 matrix (edit0, store0) =
      (fst (handleDelete env0 matrix (edit0, store0)), snd (handleDelete env0 matrix (edit0, store0)))"
    by simp
  from handleDelete_cascade [OF run0] ok
  have "calls (snd (handleDelete env0 matrix (edit0, store0))) =
       calls store0 @ RatingsList (cascade_query matrix) #
         delete_calls (ratings_for (media_id matrix) store0) @ [MediaDelete (media_id matrix)] \<and>
       ratings_for (media_id matrix) (snd (handleDelete env0 matrix (edit0, store0))) = [] \<and>
       media_for (media_id matrix) (snd (handleDelete env0 matrix (edit0, store0))) = []"
    by blast
  then have a: "calls (snd (handleDelete env0 matrix (edit0, store0))) =
     [RatingsList \<lparr>where_userId = None, where_mediaId = Some ''media_1''\<rparr>,
      RatingsDelete ''rating_1'', RatingsDelete ''rating_2'', RatingsDelete ''rating_4'',
      MediaDelete ''media_1'']"
    and b: "ratings_for ''media_1'' (snd (handleDelete env0 matrix (edit0, store0))) = []"
    and c: "media_for ''media_1'' (snd (handleDelete env0 matrix (edit0, store0))) = []"
    by (simp_all add: mid rs log cascade_query_def delete_calls_def rating_of_def)
  have bad: "1 \<le> (2::nat) \<and> 2 \<le> length (ratings_for (media_id matrix) store0) \<and>
      distinct (map rating_id (rating_rows store0)) \<and>
      (\<forall>i < 2. \<not> fails (env_rejecting 2) (length (calls store0) + i)) \<and>
      fails (env_rejecting 2) (length (calls store0) + 2)"
    by (simp add: mid rs log env_rejecting_def env0_def) (simp add: store0_def rating_of_def)
  have run2: "handleDelete (env_rejecting 2) matrix (edit0, store0) =
      (fst (handleDelete (env_rejecting 2) matrix (edit0, store0)),
       snd (handleDelete (env_rejecting 2) matrix (edit0, store0)))"
    by simp
  from handleDelete_cascade [OF run2] bad
  have "calls (snd (handleDelete (env_rejecting 2) matrix (edit0, store0))) =
       calls store0 @ RatingsList (cascade_query matrix) #
                     delete_calls (take 2 (ratings_for (media_id matrix) store0)) \<and>
       length (rating_rows (snd (handleDelete (env_rejecting 2) matrix (edit0, store0)))) + (2 - 1) =
         length (rating_rows store0) \<and>
       ratings_for (media_id matrix) (snd (handleDelete (env_rejecting 2) matrix (edit0, store0))) =
         drop (2 - 1) (ratings_for (media_id matrix) store0) \<and>
       media_rows (snd (handleDelete (env_rejecting 2) matrix (edit0, store0))) = media_rows store0"
    by blast
  then have d: "calls (snd (handleDelete (env_rejecting 2) matrix (edit0, store0))) =
     [RatingsList \<lparr>where_userId = None, where_mediaId = Some ''media_1''\<rparr>,
      RatingsDelete ''rating_1'', RatingsDelete ''rating_2'']"
    and e: "ratings_for ''media_1'' (snd (handleDelete (env_rejecting 2) matrix (edit0, store0))) =
     [rating_of ''rating_2'' ''user_2'' ''media_1'' 4,
      rating_of ''rating_4'' ''user_3'' ''media_1'' 2]"
    and f: "length (rating_rows (snd (handleDelete (env_rejecting 2) matrix (edit0, store0)))) = 3"
    and g: "media_rows (snd (handleDelete (env_rejecting 2) matrix (edit0, store0))) = [matrix, dune]"
    by (simp_all add: mid rs log cascade_query_def delete_calls_def rating_of_def)
  from a b c d e f g show ?thesis by blast
qed


section \<open>Ratings queries\<close>

text \<open>
  C8, as the claim states it, fails on the delete cascade: the ratings query that
  \<^verbatim>\<open>handleDelete\<close> issues carries no user condition.
\<close>

theorem ratings_query_unscoped_counterexample:
  "\<not> list_all has_userId_condition (issued store0 (snd (handleDelete env0 matrix (edit0, store0))))"
proof -
  have "\<forall>i \<le> Suc (length (ratings_for (media_id matrix) store0)).
      \<not> fails env0 (length (calls store0) + i)"
    by (simp add: env0_def)
  then have "calls (snd (handleDelete env0 matrix (edit0, store0))) =
      calls store0 @ RatingsList (cascade_query matrix) #
        delete_calls (ratings_for (media_id matrix) store0) @ [MediaDelete (media_id matrix)]"
    by (simp add: handleDelete_all_ok)
  then show ?thesis
    by (simp add: issued_def has_userId_condition_def cascade_query_def)
qed

text \<open>
  C8, amended. Loading the ratings of the signed-in user issues one ratings query, whose
  condition is that user's id. The delete cascade issues one ratings query, first of all
  its calls, whose only condition is the id of the media record: it has no user
  condition and so covers the ratings of every user. Submitting a rating, adding media
  and updating media issue no ratings query.
\<close>

theorem ratings_queries:
  "(user s = Some u \<longrightarrow>
      issued st (snd (loadUserRatings e (s, st))) =
        [RatingsList \<lparr>where_userId = Some (user_id u), where_mediaId = None\<rparr>]) \<and>
   (\<exists>rest. issued st (snd (handleDelete e m (d, st))) =
        RatingsList \<lparr>where_userId = None, where_mediaId = Some (media_id m)\<rparr> # rest \<and>
      list_all (\<lambda>c. \<not> is_ratings_list c) rest) \<and>
   list_all (\<lambda>c. \<not> is_ratings_list c) (issued st (snd (handleSubmitRating e (s, st)))) \<and>
   list_all (\<lambda>c. \<not> is_ratings_list c) (issued st (snd (add_handleSubmit e (a, st)))) \<and>
   list_all (\<lambda>c. \<not> is_ratings_list c) (issued st (snd (edit_handleSubmit e m (b, st))))"
proof (intro conjI impI)
  assume "user s = Some u"
  then show "issued st (snd (loadUserRatings e (s, st))) =
        [RatingsList \<lparr>where_userId = Some (user_id u), where_mediaId = None\<rparr>]"
    by (simp add: loadUserRatings_def db_ratings_list_def request_def Let_def issued_def)
next
  from handleDelete_issued [of st e m d]
  show "\<exists>rest. issued st (snd (handleDelete e m (d, st))) =
        RatingsList \<lparr>where_userId = None, where_mediaId = Some (media_id m)\<rparr> # rest \<and>
      list_all (\<lambda>c. \<not> is_ratings_list c) rest"
    by (simp add: cascade_query_def)
next
  show "list_all (\<lambda>c. \<not> is_ratings_list c) (issued st (snd (handleSubmitRating e (s, st))))"
    by (simp add: handleSubmitRating_def request_def Let_def issued_def is_ratings_list_def
          split: option.split)
next
  show "list_all (\<lambda>c. \<not> is_ratings_list c) (issued st (snd (add_handleSubmit e (a, st))))"
    by (simp add: add_handleSubmit_def request_def Let_def issued_def is_ratings_list_def)
next
  show "list_all (\<lambda>c. \<not> is_ratings_list c) (issued st (snd (edit_handleSubmit e m (b, st))))"
    by (simp add: edit_handleSubmit_def request_def Let_def issued_def is_ratings_list_def)
qed

theorem ratings_queries_witness:
  "user app0 = Some \<lparr>user_id = ''user_1''\<rparr> \<and>
   issued store0 (snd (loadUserRatings env0 (app0, store0))) =
     [RatingsList \<lparr>where_userId = Some ''user_1'', where_mediaId = None\<rparr>] \<and>
   hd (issued store0 (snd (handleDelete env0 matrix (edit0, store0)))) =
     RatingsList \<lparr>where_userId = None, where_mediaId = Some ''media_1''\<rparr>"
proof -
  have u: "user app0 = Some \<lparr>user_id = ''user_1''\<rparr>"
    by (simp add: app0_def)
  from ratings_queries [of app0 "\<lparr>user_id = ''user_1''\<rparr>" store0 env0 matrix edit0] u
  have a: "issued store0 (snd (loadUserRatings env0 (app0, store0))) =
     [RatingsList \<lparr>where_userId = Some ''user_1'', where_mediaId = None\<rparr>]"
    and "\<exists>rest. issued store0 (snd (handleDelete env0 matrix (edit0, store0))) =
        RatingsList \<lparr>where_userId = None, where_mediaId = Some (media_id matrix)\<rparr> # rest"
    by auto
  then have b: "hd (issued store0 (snd (handleDelete env0 matrix (edit0, store0)))) =
     RatingsList \<lparr>where_userId = None, where_mediaId = Some ''media_1''\<rparr>"
    by (auto simp: matrix_def)
  from u a b show ?thesis by blast
qed


section \<open>Edit-Media update\<close>



end
